theory Spec2Isabelle
  imports Main
begin

section \<open>JavaScript values\<close>

text \<open>
  The client (\<^verbatim>\<open>src/lib/api.ts\<close>) handles values of type \<^verbatim>\<open>unknown\<close>: whatever
  \<^verbatim>\<open>JSON.parse\<close> produced, and the bodies handed to \<^verbatim>\<open>apiPost\<close>. They are modelled as
  trees. Numbers are IEEE doubles in JavaScript; the model keeps them abstract (the type
  parameter \<open>'n\<close>) and takes the two observations the code can make of a number, its
  string rendering and its truthiness, as parameters of the platform (below).
  An object is the list of its own properties; a key is looked up from the front.
\<close>

datatype 'n jsval =
    JUndefined
  | JNull
  | JBool bool
  | JNum 'n
  | JStr string
  | JArr "'n jsval list"
  | JObj "(string \<times> 'n jsval) list"

text \<open>\<^verbatim>\<open>typeof v\<close>.\<close>

fun typeof :: "'n jsval \<Rightarrow> string" where
  "typeof JUndefined = ''undefined''"
| "typeof JNull = ''object''"
| "typeof (JBool b) = ''boolean''"
| "typeof (JNum n) = ''number''"
| "typeof (JStr s) = ''string''"
| "typeof (JArr xs) = ''object''"
| "typeof (JObj kvs) = ''object''"

text \<open>\<^verbatim>\<open>Array.isArray(v)\<close>.\<close>

fun isArray :: "'n jsval \<Rightarrow> bool" where
  "isArray (JArr xs) = True"
| "isArray v = False"

text \<open>
  Truthiness (\<^verbatim>\<open>ToBoolean\<close>), as used by \<^verbatim>\<open>payload && ...\<close> and \<^verbatim>\<open>!text\<close>. The first argument
  says which numbers are truthy (all but \<^verbatim>\<open>0\<close>, \<^verbatim>\<open>-0\<close> and \<^verbatim>\<open>NaN\<close>).
\<close>

fun truthy :: "('n \<Rightarrow> bool) \<Rightarrow> 'n jsval \<Rightarrow> bool" where
  "truthy nt JUndefined = False"
| "truthy nt JNull = False"
| "truthy nt (JBool b) = b"
| "truthy nt (JNum n) = nt n"
| "truthy nt (JStr s) = (s \<noteq> [])"
| "truthy nt (JArr xs) = True"
| "truthy nt (JObj kvs) = True"

text \<open>
  \<^verbatim>\<open>v == null\<close> (loose equality): true of \<^verbatim>\<open>null\<close> and \<^verbatim>\<open>undefined\<close> only.
\<close>

fun loosely_null :: "'n jsval \<Rightarrow> bool" where
  "loosely_null JUndefined = True"
| "loosely_null JNull = True"
| "loosely_null v = False"

text \<open>A primitive value: anything but an array or an object.\<close>

fun is_primitive :: "'n jsval \<Rightarrow> bool" where
  "is_primitive (JArr xs) = False"
| "is_primitive (JObj kvs) = False"
| "is_primitive v = True"

text \<open>
  Property read \<^verbatim>\<open>v.k\<close> and \<^verbatim>\<open>k in v\<close>, for the keys the client uses
  (\<^verbatim>\<open>enrollments\<close>, \<^verbatim>\<open>data\<close>, \<^verbatim>\<open>events\<close>, \<^verbatim>\<open>message\<close>): none of them is inherited from
  \<^verbatim>\<open>Object.prototype\<close> or \<^verbatim>\<open>Array.prototype\<close>, so an object has one exactly when it is
  an own property, and an array built by \<^verbatim>\<open>JSON.parse\<close> (index properties only) has
  none. The client applies both only to values it has found to be non-null objects.
\<close>

fun get_prop :: "'n jsval \<Rightarrow> string \<Rightarrow> 'n jsval" where
  "get_prop (JObj kvs) k = (case map_of kvs k of Some v \<Rightarrow> v | None \<Rightarrow> JUndefined)"
| "get_prop v k = JUndefined"

fun has_prop :: "string \<Rightarrow> 'n jsval \<Rightarrow> bool" where
  "has_prop k (JObj kvs) = (case map_of kvs k of Some v \<Rightarrow> True | None \<Rightarrow> False)"
| "has_prop k v = False"

section \<open>Errors\<close>

text \<open>
  What a call can reject with. \<^verbatim>\<open>ApiError\<close> is the class of the source (message,
  status, payload). \<^verbatim>\<open>TypeError\<close> is what \<^verbatim>\<open>String(v)\<close> throws on an object that cannot be
  converted to a primitive. \<^verbatim>\<open>FetchRejection reason\<close> is the rejection of \<^verbatim>\<open>fetch\<close> itself
  (no response: network down, DNS, CORS), with the reason \<^verbatim>\<open>fetch\<close> gave;
  \<^verbatim>\<open>TransportFailure\<close> is the rejection of \<^verbatim>\<open>response.text()\<close> (the body could not be
  read). The source wraps neither call in a \<^verbatim>\<open>try\<close>.
\<close>

datatype 'n thrown =
    ApiError string nat "'n jsval"
  | TypeError
  | FetchRejection string
  | TransportFailure


fun resolves :: "'n thrown + 'a \<Rightarrow> bool" where
  "resolves (Inr v) = True"
| "resolves (Inl e) = False"

section \<open>String conversion\<close>

text \<open>
  \<^verbatim>\<open>String(v)\<close>, that is \<^verbatim>\<open>ToString\<close> of ECMAScript. On an array it is
  \<^verbatim>\<open>Array.prototype.join\<close> with a comma, where \<^verbatim>\<open>null\<close> and \<^verbatim>\<open>undefined\<close> elements give the
  empty string. On an object it calls the object's \<^verbatim>\<open>toString\<close>: the inherited one
  answers \<^verbatim>\<open>[object Object]\<close>; an own property \<^verbatim>\<open>toString\<close> (in parsed JSON never a
  function) hides it, \<^verbatim>\<open>valueOf\<close> then yields no primitive either, and the conversion
  throws a \<^verbatim>\<open>TypeError\<close>.
  The engine's call stack is not part of the model: on arrays nested deeply enough the
  real conversion ends in a \<^verbatim>\<open>RangeError\<close>, where \<open>ToString\<close> still returns a string. What
  is proved below about a response that is not ok therefore speaks of bodies whose
  \<^verbatim>\<open>message\<close> is absent or a primitive (\<open>is_primitive\<close>), on which the conversion makes no
  nested call, and of the one body of claim C2.
\<close>

fun ToString :: "('n \<Rightarrow> string) \<Rightarrow> 'n jsval \<Rightarrow> 'n thrown + string"
  and join_comma :: "('n \<Rightarrow> string) \<Rightarrow> 'n jsval list \<Rightarrow> 'n thrown + string" where
  "ToString ns JUndefined = Inr ''undefined''"
| "ToString ns JNull = Inr ''null''"
| "ToString ns (JBool b) = Inr (if b then ''true'' else ''false'')"
| "ToString ns (JNum n) = Inr (ns n)"
| "ToString ns (JStr s) = Inr s"
| "ToString ns (JArr xs) = join_comma ns xs"
| "ToString ns (JObj kvs) =
     (if has_prop ''toString'' (JObj kvs) then Inl TypeError else Inr ''[object Object]'')"
| "join_comma ns [] = Inr []"
| "join_comma ns (x # xs) =
     (case (if loosely_null x then Inr [] else ToString ns x) of
        Inl e \<Rightarrow> Inl e
      | Inr s \<Rightarrow>
          (case join_comma ns xs of
             Inl e \<Rightarrow> Inl e
           | Inr r \<Rightarrow> Inr (s @ (if xs = [] then [] else '','' @ r))))"

text \<open>
  The decimal rendering of an HTTP status in the template literal
  \<^verbatim>\<open>`Request failed (${response.status})`\<close>. A status is an unsigned 16-bit integer of
  the platform, far below the size where JavaScript switches to exponent notation.
\<close>

definition digit_char :: "nat \<Rightarrow> char" where
  "digit_char d = ''0123456789'' ! d"

fun decimal :: "nat \<Rightarrow> string" where
  "decimal n =
     (if n < 10 then [digit_char n] else decimal (n div 10) @ [digit_char (n mod 10)])"

declare decimal.simps [simp del]

section \<open>The platform\<close>

text \<open>
  A \<^verbatim>\<open>Response\<close> as the client sees it: its status and what \<^verbatim>\<open>response.text()\<close> resolves
  with (\<open>None\<close>: reading the body rejects). \<^verbatim>\<open>response.ok\<close> is, by the Fetch standard,
  true exactly of the statuses 200 to 299.
\<close>

record Response =
  status :: nat
  body_text :: "string option"

definition ok :: "Response \<Rightarrow> bool" where
  "ok response = (200 \<le> status response \<and> status response \<le> 299)"

text \<open>
  How a call of \<^verbatim>\<open>fetch\<close> ends: it rejects, for a reason, or it resolves with a response.
\<close>

datatype fetch_outcome = FetchRejected string | Responded Response

text \<open>
  The second argument of \<^verbatim>\<open>request\<close>, a \<^verbatim>\<open>RequestInit\<close>. A field is \<open>None\<close> when the key
  is missing (for \<^verbatim>\<open>body\<close>: also when it is \<^verbatim>\<open>undefined\<close>, which \<^verbatim>\<open>fetch\<close> reads as missing).
\<close>

record RequestInit =
  init_method :: "string option"
  init_headers :: "(string \<times> string) list option"
  init_body :: "string option"

text \<open>The two arguments \<^verbatim>\<open>fetch\<close> is called with: the URL and the options.\<close>

record fetch_call =
  url :: string
  req_method :: "string option"
  req_headers :: "(string \<times> string) list"
  req_body :: "string option"

text \<open>
  Everything the module takes from its surroundings: the configuration value
  \<^verbatim>\<open>import.meta.env.VITE_API_BASE_URL\<close> (\<open>None\<close> when it is not set), the transport
  \<^verbatim>\<open>fetch\<close>, \<^verbatim>\<open>JSON.parse\<close> (\<open>None\<close> when it throws a \<^verbatim>\<open>SyntaxError\<close>),
  \<^verbatim>\<open>JSON.stringify\<close> (which returns a string on every tree of data other than
  \<^verbatim>\<open>undefined\<close>), and the two observations of a number. \<^verbatim>\<open>fetch\<close> is a function of its
  arguments here: every operation calls it once.
\<close>

record 'n platform =
  VITE_API_BASE_URL :: "string option"
  fetch :: "fetch_call \<Rightarrow> fetch_outcome"
  JSON_parse :: "string \<Rightarrow> 'n jsval option"
  JSON_stringify :: "'n jsval \<Rightarrow> string"
  Number_toString :: "'n \<Rightarrow> string"
  Number_truthy :: "'n \<Rightarrow> bool"

section \<open>The client\<close>

text \<open>
  \<^verbatim>\<open>const API_BASE_URL = import.meta.env.VITE_API_BASE_URL?.replace(/\/$/, "") ?? "";\<close>
  The pattern matches one slash at the very end of the value.
\<close>

definition strip_trailing_slash :: "string \<Rightarrow> string" where
  "strip_trailing_slash s = (if s \<noteq> [] \<and> last s = CHR ''/'' then butlast s else s)"

definition API_BASE_URL :: "'n platform \<Rightarrow> string" where
  "API_BASE_URL P =
     (case VITE_API_BASE_URL P of None \<Rightarrow> [] | Some v \<Rightarrow> strip_trailing_slash v)"

text \<open>
  \<^verbatim>\<open>parseJson\<close>: the body as text; \<^verbatim>\<open>null\<close> for the empty text; otherwise
  \<^verbatim>\<open>JSON.parse\<close>, and the text itself where that throws.
\<close>

definition parseJson :: "'n platform \<Rightarrow> Response \<Rightarrow> 'n thrown + 'n jsval" where
  "parseJson P response =
     (case body_text response of
        None \<Rightarrow> Inl TransportFailure
      | Some text \<Rightarrow>
          if \<not> truthy (Number_truthy P) (JStr text) then Inr JNull
          else (case JSON_parse P text of
                  Some v \<Rightarrow> Inr v
                | None \<Rightarrow> Inr (JStr text)))"

text \<open>
  The options of the \<^verbatim>\<open>fetch\<close> call in \<^verbatim>\<open>request\<close>:
  \<^verbatim>\<open>{ headers: { "Content-Type": "application/json", ...(init?.headers ?? {}) }, ...init }\<close>.
  The inner spread lets a header of \<^verbatim>\<open>init\<close> replace the default of the same name; the
  outer spread then replaces the whole \<^verbatim>\<open>headers\<close> entry by that of \<^verbatim>\<open>init\<close> when
  \<^verbatim>\<open>init\<close> has one.
\<close>

definition spread :: "(string \<times> 'v) list \<Rightarrow> (string \<times> 'v) list \<Rightarrow> (string \<times> 'v) list" where
  "spread base over = filter (\<lambda>kv. map_of over (fst kv) = None) base @ over"

definition fetch_args :: "'n platform \<Rightarrow> string \<Rightarrow> RequestInit option \<Rightarrow> fetch_call" where
  "fetch_args P path init =
     (let merged = spread [(''Content-Type'', ''application/json'')]
                     (case init of
                        None \<Rightarrow> []
                      | Some i \<Rightarrow> (case init_headers i of None \<Rightarrow> [] | Some h \<Rightarrow> h))
      in \<lparr> url = API_BASE_URL P @ path,
           req_method = (case init of None \<Rightarrow> None | Some i \<Rightarrow> init_method i),
           req_headers =
             (case init of
                None \<Rightarrow> merged
              | Some i \<Rightarrow> (case init_headers i of None \<Rightarrow> merged | Some h \<Rightarrow> h)),
           req_body = (case init of None \<Rightarrow> None | Some i \<Rightarrow> init_body i) \<rparr>)"

text \<open>
  The message of the error for a response that is not ok:
  \<^verbatim>\<open>typeof payload === "object" && payload && "message" in payload
     ? String(payload.message) : `Request failed (${response.status})`\<close>.
\<close>

definition error_message :: "'n platform \<Rightarrow> Response \<Rightarrow> 'n jsval \<Rightarrow> 'n thrown + string" where
  "error_message P response payload =
     (if typeof payload = ''object'' \<and> truthy (Number_truthy P) payload
         \<and> has_prop ''message'' payload
      then ToString (Number_toString P) (get_prop payload ''message'')
      else Inr (''Request failed ('' @ decimal (status response) @ '')''))"

text \<open>\<^verbatim>\<open>request\<close>, from the point where \<^verbatim>\<open>fetch\<close> has settled.\<close>

definition settle :: "'n platform \<Rightarrow> fetch_outcome \<Rightarrow> 'n thrown + 'n jsval" where
  "settle P outcome =
     (case outcome of
        FetchRejected reason \<Rightarrow> Inl (FetchRejection reason)
      | Responded response \<Rightarrow>
          (case parseJson P response of
             Inl e \<Rightarrow> Inl e
           | Inr payload \<Rightarrow>
               if \<not> ok response then
                 (case error_message P response payload of
                    Inl e \<Rightarrow> Inl e
                  | Inr message \<Rightarrow> Inl (ApiError message (status response) payload))
               else Inr payload))"

definition request :: "'n platform \<Rightarrow> string \<Rightarrow> RequestInit option \<Rightarrow> 'n thrown + 'n jsval" where
  "request P path init = settle P (fetch P (fetch_args P path init))"

text \<open>
  \<^verbatim>\<open>apiGet\<close> passes \<^verbatim>\<open>{ method: "GET" }\<close>; \<^verbatim>\<open>apiPost\<close> passes
  \<^verbatim>\<open>{ method: "POST", body: body == null ? undefined : JSON.stringify(body) }\<close>.
\<close>

abbreviation GET_init :: "RequestInit option" where
  "GET_init \<equiv>
     Some \<lparr> init_method = Some ''GET'', init_headers = None, init_body = None \<rparr>"

abbreviation POST_init :: "'n platform \<Rightarrow> 'n jsval \<Rightarrow> RequestInit option" where
  "POST_init P body \<equiv>
     Some \<lparr> init_method = Some ''POST'', init_headers = None,
            init_body = (if loosely_null body then None else Some (JSON_stringify P body)) \<rparr>"

definition apiGet :: "'n platform \<Rightarrow> string \<Rightarrow> 'n thrown + 'n jsval" where
  "apiGet P path = request P path GET_init"

definition apiPost :: "'n platform \<Rightarrow> string \<Rightarrow> 'n jsval \<Rightarrow> 'n thrown + 'n jsval" where
  "apiPost P path body = request P path (POST_init P body)"

definition normalizeEnrollmentList :: "'n platform \<Rightarrow> 'n jsval \<Rightarrow> 'n thrown + 'n jsval list" where
  "normalizeEnrollmentList P payload =
     (case payload of
        JArr xs \<Rightarrow> Inr xs
      | _ \<Rightarrow>
          if truthy (Number_truthy P) payload \<and> typeof payload = ''object'' then
            (case get_prop payload ''enrollments'' of
               JArr xs \<Rightarrow> Inr xs
             | _ \<Rightarrow>
                 (case get_prop payload ''data'' of
                    JArr xs \<Rightarrow> Inr xs
                  | _ \<Rightarrow> Inl (ApiError ''Expected enrollments array from API'' 200 payload)))
          else Inl (ApiError ''Expected enrollments array from API'' 200 payload))"

record 'n TimelineResponse =
  events :: "'n jsval list"

definition normalizeTimeline :: "'n platform \<Rightarrow> 'n jsval \<Rightarrow> 'n thrown + 'n TimelineResponse" where
  "normalizeTimeline P payload =
     (if truthy (Number_truthy P) payload \<and> typeof payload = ''object'' then
        (case get_prop payload ''events'' of
           JArr xs \<Rightarrow> Inr \<lparr> events = xs \<rparr>
         | _ \<Rightarrow> Inl (ApiError ''Expected timeline response with events[]'' 200 payload))
      else Inl (ApiError ''Expected timeline response with events[]'' 200 payload))"

text \<open>
  \<^verbatim>\<open>EnrollmentStatus\<close> and its rendering by \<^verbatim>\<open>new URLSearchParams({ status }).toString()\<close>:
  the four names consist of letters and the underscore, which the form encoding leaves
  as they are.
\<close>

datatype EnrollmentStatus = ACTIVE | PAID_EXIT | ESCALATED | SUPPRESSED

fun status_name :: "EnrollmentStatus \<Rightarrow> string" where
  "status_name ACTIVE = ''ACTIVE''"
| "status_name PAID_EXIT = ''PAID_EXIT''"
| "status_name ESCALATED = ''ESCALATED''"
| "status_name SUPPRESSED = ''SUPPRESSED''"

definition URLSearchParams_status :: "EnrollmentStatus \<Rightarrow> string" where
  "URLSearchParams_status st = ''status='' @ status_name st"

text \<open>The six operations of \<^verbatim>\<open>sequenceApi\<close>.\<close>

definition listEnrollments :: "'n platform \<Rightarrow> EnrollmentStatus \<Rightarrow> 'n thrown + 'n jsval list" where
  "listEnrollments P st =
     (case apiGet P (''/api/enrollments?'' @ URLSearchParams_status st) of
        Inl e \<Rightarrow> Inl e
      | Inr payload \<Rightarrow> normalizeEnrollmentList P payload)"

definition createEnrollment :: "'n platform \<Rightarrow> 'n jsval \<Rightarrow> 'n thrown + 'n jsval" where
  "createEnrollment P payload = apiPost P ''/api/enrollments'' payload"

definition getEnrollment :: "'n platform \<Rightarrow> string \<Rightarrow> 'n thrown + 'n jsval" where
  "getEnrollment P ident = apiGet P (''/api/enrollments/'' @ ident)"

definition getTimeline :: "'n platform \<Rightarrow> string \<Rightarrow> 'n thrown + 'n TimelineResponse" where
  "getTimeline P ident =
     (case apiGet P (''/api/enrollments/'' @ ident @ ''/timeline'') of
        Inl e \<Rightarrow> Inl e
      | Inr payload \<Rightarrow> normalizeTimeline P payload)"

definition suppressEnrollment :: "'n platform \<Rightarrow> string \<Rightarrow> 'n jsval \<Rightarrow> 'n thrown + 'n jsval" where
  "suppressEnrollment P ident payload =
     apiPost P (''/api/enrollments/'' @ ident @ ''/suppress'') payload"

definition escalateEnrollment :: "'n platform \<Rightarrow> string \<Rightarrow> 'n jsval \<Rightarrow> 'n thrown + 'n jsval" where
  "escalateEnrollment P ident payload =
     apiPost P (''/api/enrollments/'' @ ident @ ''/escalate'') payload"

section \<open>The client with the calls of fetch made explicit\<close>

text \<open>
  Above, \<^verbatim>\<open>fetch\<close> answers a call whatever came before. To tell a client that calls
  \<^verbatim>\<open>fetch\<close> once from one that calls it again, the same code is read here with the
  history of the calls made so far threaded through: a transport answers a call given
  the calls before it, and every call of \<^verbatim>\<open>fetch\<close> is appended to the history. The field
  \<open>fetch\<close> of the platform plays no part in these definitions; the transport takes
  its place.
\<close>

type_synonym history = "fetch_call list"

type_synonym transport = "history \<Rightarrow> fetch_call \<Rightarrow> fetch_outcome"

definition fetch_io :: "transport \<Rightarrow> fetch_call \<Rightarrow> history \<Rightarrow> fetch_outcome \<times> history" where
  "fetch_io T c h = (T h c, h @ [c])"

definition request_io ::
  "'n platform \<Rightarrow> transport \<Rightarrow> string \<Rightarrow> RequestInit option \<Rightarrow> history
    \<Rightarrow> ('n thrown + 'n jsval) \<times> history" where
  "request_io P T path init h =
     (case fetch_io T (fetch_args P path init) h of
        (outcome, h') \<Rightarrow> (settle P outcome, h'))"

definition apiGet_io ::
  "'n platform \<Rightarrow> transport \<Rightarrow> string \<Rightarrow> history \<Rightarrow> ('n thrown + 'n jsval) \<times> history" where
  "apiGet_io P T path h = request_io P T path GET_init h"

definition apiPost_io ::
  "'n platform \<Rightarrow> transport \<Rightarrow> string \<Rightarrow> 'n jsval \<Rightarrow> history
    \<Rightarrow> ('n thrown + 'n jsval) \<times> history" where
  "apiPost_io P T path body h = request_io P T path (POST_init P body) h"

definition listEnrollments_io ::
  "'n platform \<Rightarrow> transport \<Rightarrow> EnrollmentStatus \<Rightarrow> history
    \<Rightarrow> ('n thrown + 'n jsval list) \<times> history" where
  "listEnrollments_io P T st h =
     (case apiGet_io P T (''/api/enrollments?'' @ URLSearchParams_status st) h of
        (Inl e, h') \<Rightarrow> (Inl e, h')
      | (Inr payload, h') \<Rightarrow> (normalizeEnrollmentList P payload, h'))"

definition createEnrollment_io ::
  "'n platform \<Rightarrow> transport \<Rightarrow> 'n jsval \<Rightarrow> history \<Rightarrow> ('n thrown + 'n jsval) \<times> history" where
  "createEnrollment_io P T payload h = apiPost_io P T ''/api/enrollments'' payload h"

definition getEnrollment_io ::
  "'n platform \<Rightarrow> transport \<Rightarrow> string \<Rightarrow> history \<Rightarrow> ('n thrown + 'n jsval) \<times> history" where
  "getEnrollment_io P T ident h = apiGet_io P T (''/api/enrollments/'' @ ident) h"

definition getTimeline_io ::
  "'n platform \<Rightarrow> transport \<Rightarrow> string \<Rightarrow> history
    \<Rightarrow> ('n thrown + 'n TimelineResponse) \<times> history" where
  "getTimeline_io P T ident h =
     (case apiGet_io P T (''/api/enrollments/'' @ ident @ ''/timeline'') h of
        (Inl e, h') \<Rightarrow> (Inl e, h')
      | (Inr payload, h') \<Rightarrow> (normalizeTimeline P payload, h'))"

definition suppressEnrollment_io ::
  "'n platform \<Rightarrow> transport \<Rightarrow> string \<Rightarrow> 'n jsval \<Rightarrow> history
    \<Rightarrow> ('n thrown + 'n jsval) \<times> history" where
  "suppressEnrollment_io P T ident payload h =
     apiPost_io P T (''/api/enrollments/'' @ ident @ ''/suppress'') payload h"

definition escalateEnrollment_io ::
  "'n platform \<Rightarrow> transport \<Rightarrow> string \<Rightarrow> 'n jsval \<Rightarrow> history
    \<Rightarrow> ('n thrown + 'n jsval) \<times> history" where
  "escalateEnrollment_io P T ident payload h =
     apiPost_io P T (''/api/enrollments/'' @ ident @ ''/escalate'') payload h"





section \<open>Test doubles\<close>

text \<open>
  Concrete platforms for the examples below. \<open>table_parse\<close> stands in for \<^verbatim>\<open>JSON.parse\<close>
  on the handful of texts the examples use (it throws on every other text);
  \<open>answering r\<close> is a transport that answers every request with the response \<open>r\<close>;
  \<open>offline\<close> is one whose \<^verbatim>\<open>fetch\<close> always rejects. Numbers are naturals here.
\<close>

definition table_parse :: "string \<Rightarrow> nat jsval option" where
  \<open>table_parse =
     map_of
       [(''[7,8]'', JArr [JNum 7, JNum 8]),
        (''[]'', JArr []),
        (''{"enrollments":[7,8]}'', JObj [(''enrollments'', JArr [JNum 7, JNum 8])]),
        (''{"data":[7,8]}'', JObj [(''data'', JArr [JNum 7, JNum 8])]),
        (''{"enrollments":[7],"data":[8]}'',
           JObj [(''enrollments'', JArr [JNum 7]), (''data'', JArr [JNum 8])]),
        (''{"foo":[7,8]}'', JObj [(''foo'', JArr [JNum 7, JNum 8])]),
        (''{"events":[]}'', JObj [(''events'', JArr [])]),
        (''{"id":"e1","status":"SUPPRESSED"}'',
           JObj [(''id'', JStr ''e1''), (''status'', JStr ''SUPPRESSED'')]),
        (''{"message":"not found"}'', JObj [(''message'', JStr ''not found'')]),
        (''{"message":{"toString":1}}'', JObj [(''message'', JObj [(''toString'', JNum 1)])]),
        (''null'', JNull)]\<close>

definition answering :: "Response \<Rightarrow> nat platform" where
  "answering r =
     \<lparr> VITE_API_BASE_URL = Some ''https://collect.example/'',
       fetch = (\<lambda>c. Responded r),
       JSON_parse = table_parse,
       JSON_stringify = (\<lambda>v. ''{}''),
       Number_toString = decimal,
       Number_truthy = (\<lambda>n. n \<noteq> 0) \<rparr>"

definition offline :: "nat platform" where
  "offline =
     \<lparr> VITE_API_BASE_URL = None,
       fetch = (\<lambda>c. FetchRejected ''Failed to fetch''),
       JSON_parse = table_parse,
       JSON_stringify = (\<lambda>v. ''{}''),
       Number_toString = decimal,
       Number_truthy = (\<lambda>n. n \<noteq> 0) \<rparr>"



text \<open>
  \<open>probe\<close> is a transport that looks at the request: it answers 400 to a request without
  a body, and echoes the body of a request that has one (200 when the request carries
  the JSON content type, 415 otherwise). Its \<^verbatim>\<open>JSON.parse\<close> accepts nothing.
\<close>

definition probe :: "'n platform" where
  "probe =
     \<lparr> VITE_API_BASE_URL = None,
       fetch = (\<lambda>c. Responded
                 (case req_body c of
                    None \<Rightarrow> \<lparr>status = 400, body_text = Some ''no body''\<rparr>
                  | Some b \<Rightarrow>
                      if map_of (req_headers c) ''Content-Type'' = Some ''application/json''
                      then \<lparr>status = 200, body_text = Some b\<rparr>
                      else \<lparr>status = 415, body_text = Some b\<rparr>)),
       JSON_parse = (\<lambda>s. None),
       JSON_stringify = (\<lambda>v. ''<stringified>''),
       Number_toString = (\<lambda>n. []),
       Number_truthy = (\<lambda>n. True) \<rparr>"

lemmas fixture_defs = answering_def offline_def table_parse_def

section \<open>Successful responses\<close>

lemma request_ok:
  assumes "fetch P (fetch_args P path init) = Responded response"
    and "ok response" and "parseJson P response = Inr payload"
  shows "request P path init = Inr payload"
  using assms by (simp add: request_def settle_def)

lemma normalizeEnrollmentList_array:
  "normalizeEnrollmentList P (JArr xs) = Inr xs"
  by (simp add: normalizeEnrollmentList_def)

lemma normalizeEnrollmentList_enrollments:
  "get_prop payload ''enrollments'' = JArr xs \<Longrightarrow> normalizeEnrollmentList P payload = Inr xs"
  by (cases payload) (simp_all add: normalizeEnrollmentList_def)

lemma normalizeEnrollmentList_data:
  "get_prop payload ''data'' = JArr xs \<Longrightarrow> \<not> isArray (get_prop payload ''enrollments'')
    \<Longrightarrow> normalizeEnrollmentList P payload = Inr xs"
  by (cases payload; cases "get_prop payload ''enrollments''")
     (simp_all add: normalizeEnrollmentList_def)

lemma normalizeEnrollmentList_reject:
  "\<not> isArray payload \<Longrightarrow> \<not> isArray (get_prop payload ''enrollments'')
    \<Longrightarrow> \<not> isArray (get_prop payload ''data'')
    \<Longrightarrow> normalizeEnrollmentList P payload =
          Inl (ApiError ''Expected enrollments array from API'' 200 payload)"
  by (cases payload; cases "get_prop payload ''enrollments''"; cases "get_prop payload ''data''")
     (simp_all add: normalizeEnrollmentList_def)

lemma isArray_iff: "isArray v \<longleftrightarrow> (\<exists>xs. v = JArr xs)"
  by (cases v) simp_all

lemma normalizeEnrollmentList_resolves_iff:
  "resolves (normalizeEnrollmentList P payload) \<longleftrightarrow>
     isArray payload \<or> isArray (get_prop payload ''enrollments'')
       \<or> isArray (get_prop payload ''data'')"
proof (cases "isArray payload")
  case True
  then show ?thesis by (auto simp: isArray_iff normalizeEnrollmentList_array)
next
  case np: False
  show ?thesis
  proof (cases "isArray (get_prop payload ''enrollments'')")
    case True
    then show ?thesis by (auto simp: isArray_iff normalizeEnrollmentList_enrollments)
  next
    case ne: False
    show ?thesis
    proof (cases "isArray (get_prop payload ''data'')")
      case True
      then obtain zs where "get_prop payload ''data'' = JArr zs"
        by (auto simp: isArray_iff)
      with ne show ?thesis by (simp add: normalizeEnrollmentList_data)
    next
      case False
      with np ne show ?thesis by (simp add: normalizeEnrollmentList_reject)
    qed
  qed
qed

lemma listEnrollments_ok:
  assumes "fetch P (fetch_args P (''/api/enrollments?'' @ URLSearchParams_status st) GET_init)
             = Responded response"
    and "ok response" and "parseJson P response = Inr payload"
  shows "listEnrollments P st = normalizeEnrollmentList P payload"
  using request_ok [OF assms] by (simp add: listEnrollments_def apiGet_def)

text \<open>
  Claim C1. When the response to \<^verbatim>\<open>listEnrollments\<close> is 2xx and its body parses to
  \<open>payload\<close>, the call resolves exactly when the payload is an array, or has an array
  under \<^verbatim>\<open>enrollments\<close>, or has an array under \<^verbatim>\<open>data\<close>; the result is then that array
  itself, elements and order untouched (for \<^verbatim>\<open>data\<close>: where \<^verbatim>\<open>enrollments\<close> holds no array,
  see C9 for the order of the tests). The same contents \<open>ys\<close> under each of the three
  envelopes normalize to the same list \<open>ys\<close>.
\<close>

theorem listEnrollments_three_envelopes:
  assumes "fetch P (fetch_args P (''/api/enrollments?'' @ URLSearchParams_status st) GET_init)
             = Responded response"
    and "ok response" and "parseJson P response = Inr payload"
  shows "(resolves (listEnrollments P st) \<longleftrightarrow>
            isArray payload \<or> isArray (get_prop payload ''enrollments'')
              \<or> isArray (get_prop payload ''data''))
       \<and> (payload = JArr xs \<longrightarrow> listEnrollments P st = Inr xs)
       \<and> (get_prop payload ''enrollments'' = JArr xs \<longrightarrow> listEnrollments P st = Inr xs)
       \<and> (get_prop payload ''data'' = JArr xs \<and> \<not> isArray (get_prop payload ''enrollments'')
            \<longrightarrow> listEnrollments P st = Inr xs)
       \<and> normalizeEnrollmentList P (JArr ys) = Inr ys
       \<and> normalizeEnrollmentList P (JObj [(''enrollments'', JArr ys)]) = Inr ys
       \<and> normalizeEnrollmentList P (JObj [(''data'', JArr ys)]) = Inr ys"
proof -
  have eq: "listEnrollments P st = normalizeEnrollmentList P payload"
    by (rule listEnrollments_ok [OF assms])
  have accept: "resolves (normalizeEnrollmentList P payload) \<longleftrightarrow>
      isArray payload \<or> isArray (get_prop payload ''enrollments'')
        \<or> isArray (get_prop payload ''data'')"
    by (rule normalizeEnrollmentList_resolves_iff)
  show ?thesis
    unfolding eq using accept
    by (simp add: normalizeEnrollmentList_array normalizeEnrollmentList_enrollments
        normalizeEnrollmentList_data)
qed

theorem listEnrollments_three_envelopes_witness:
  \<open>listEnrollments (answering \<lparr>status = 200, body_text = Some ''[7,8]''\<rparr>) ACTIVE
      = Inr [JNum 7, JNum 8]
   \<and> listEnrollments (answering \<lparr>status = 200, body_text = Some ''{"enrollments":[7,8]}''\<rparr>) ACTIVE
      = Inr [JNum 7, JNum 8]
   \<and> listEnrollments (answering \<lparr>status = 200, body_text = Some ''{"data":[7,8]}''\<rparr>) ACTIVE
      = Inr [JNum 7, JNum 8]\<close>
proof -
  let ?a = \<open>\<lparr>status = 200, body_text = Some ''[7,8]''\<rparr>\<close>
  let ?e = \<open>\<lparr>status = 200, body_text = Some ''{"enrollments":[7,8]}''\<rparr>\<close>
  let ?d = \<open>\<lparr>status = 200, body_text = Some ''{"data":[7,8]}''\<rparr>\<close>
  have "listEnrollments (answering ?a) ACTIVE = Inr [JNum 7, JNum 8]"
    using listEnrollments_three_envelopes
      [of "answering ?a" ACTIVE ?a "JArr [JNum 7, JNum 8]" "[JNum 7, JNum 8]"]
    by (simp add: fixture_defs parseJson_def ok_def)
  moreover have "listEnrollments (answering ?e) ACTIVE = Inr [JNum 7, JNum 8]"
    using listEnrollments_three_envelopes
      [of "answering ?e" ACTIVE ?e "JObj [(''enrollments'', JArr [JNum 7, JNum 8])]"
          "[JNum 7, JNum 8]"]
    by (simp add: fixture_defs parseJson_def ok_def)
  moreover have "listEnrollments (answering ?d) ACTIVE = Inr [JNum 7, JNum 8]"
    using listEnrollments_three_envelopes
      [of "answering ?d" ACTIVE ?d "JObj [(''data'', JArr [JNum 7, JNum 8])]"
          "[JNum 7, JNum 8]"]
    by (simp add: fixture_defs parseJson_def ok_def)
  ultimately show ?thesis by simp
qed

text \<open>
  Claim C3. When the response to \<^verbatim>\<open>listEnrollments\<close> is 2xx and the parsed payload is
  none of the three envelopes (not an array, no array under \<^verbatim>\<open>enrollments\<close>, no array
  under \<^verbatim>\<open>data\<close>), the call rejects with the \<^verbatim>\<open>ApiError\<close> of status 200 and message
  \<^verbatim>\<open>Expected enrollments array from API\<close> that carries the payload as it was parsed.
\<close>

theorem listEnrollments_unrecognized:
  assumes "fetch P (fetch_args P (''/api/enrollments?'' @ URLSearchParams_status st) GET_init)
             = Responded response"
    and "ok response" and "parseJson P response = Inr payload"
    and "\<not> isArray payload"
    and "\<not> isArray (get_prop payload ''enrollments'')"
    and "\<not> isArray (get_prop payload ''data'')"
  shows "listEnrollments P st =
           Inl (ApiError ''Expected enrollments array from API'' 200 payload)"
  using listEnrollments_ok [OF assms(1-3)] assms(4-6)
  by (simp add: normalizeEnrollmentList_reject)

theorem listEnrollments_unrecognized_witness:
  \<open>listEnrollments (answering \<lparr>status = 200, body_text = Some ''{"foo":[7,8]}''\<rparr>) ACTIVE
      = Inl (ApiError ''Expected enrollments array from API'' 200
               (JObj [(''foo'', JArr [JNum 7, JNum 8])]))
   \<and> listEnrollments (answering \<lparr>status = 200, body_text = Some ''null''\<rparr>) PAID_EXIT
      = Inl (ApiError ''Expected enrollments array from API'' 200 JNull)
   \<and> listEnrollments (answering \<lparr>status = 204, body_text = Some ''''\<rparr>) ESCALATED
      = Inl (ApiError ''Expected enrollments array from API'' 200 JNull)
   \<and> listEnrollments (answering \<lparr>status = 200, body_text = Some ''hello''\<rparr>) SUPPRESSED
      = Inl (ApiError ''Expected enrollments array from API'' 200 (JStr ''hello''))\<close>
proof -
  let ?f = \<open>\<lparr>status = 200, body_text = Some ''{"foo":[7,8]}''\<rparr>\<close>
  let ?n = \<open>\<lparr>status = 200, body_text = Some ''null''\<rparr>\<close>
  let ?e = \<open>\<lparr>status = 204, body_text = Some ''''\<rparr>\<close>
  let ?s = \<open>\<lparr>status = 200, body_text = Some ''hello''\<rparr>\<close>
  have "listEnrollments (answering ?f) ACTIVE
      = Inl (ApiError ''Expected enrollments array from API'' 200
               (JObj [(''foo'', JArr [JNum 7, JNum 8])]))"
    using listEnrollments_unrecognized
      [of "answering ?f" ACTIVE ?f "JObj [(''foo'', JArr [JNum 7, JNum 8])]"]
    by (simp add: fixture_defs parseJson_def ok_def)
  moreover have "listEnrollments (answering ?n) PAID_EXIT
      = Inl (ApiError ''Expected enrollments array from API'' 200 JNull)"
    using listEnrollments_unrecognized [of "answering ?n" PAID_EXIT ?n JNull]
    by (simp add: fixture_defs parseJson_def ok_def)
  moreover have "listEnrollments (answering ?e) ESCALATED
      = Inl (ApiError ''Expected enrollments array from API'' 200 JNull)"
    using listEnrollments_unrecognized [of "answering ?e" ESCALATED ?e JNull]
    by (simp add: fixture_defs parseJson_def ok_def)
  moreover have "listEnrollments (answering ?s) SUPPRESSED
      = Inl (ApiError ''Expected enrollments array from API'' 200 (JStr ''hello''))"
    using listEnrollments_unrecognized [of "answering ?s" SUPPRESSED ?s "JStr ''hello''"]
    by (simp add: fixture_defs parseJson_def ok_def)
  ultimately show ?thesis by simp
qed

text \<open>
  Claim C9. The shapes are tested in a fixed order: the bare array, then
  \<^verbatim>\<open>enrollments\<close>, then \<^verbatim>\<open>data\<close>. A 2xx object payload with arrays under both fields
  yields the \<^verbatim>\<open>enrollments\<close> array; the \<^verbatim>\<open>data\<close> array is read only where
  \<^verbatim>\<open>enrollments\<close> holds no array.
\<close>

theorem listEnrollments_precedence:
  assumes "fetch P (fetch_args P (''/api/enrollments?'' @ URLSearchParams_status st) GET_init)
             = Responded response"
    and "ok response" and "parseJson P response = Inr payload"
  shows "(payload = JArr xs \<longrightarrow> listEnrollments P st = Inr xs)
       \<and> (get_prop payload ''enrollments'' = JArr es \<and> get_prop payload ''data'' = JArr ds
            \<longrightarrow> listEnrollments P st = Inr es)
       \<and> (\<not> isArray (get_prop payload ''enrollments'') \<and> get_prop payload ''data'' = JArr ds
            \<longrightarrow> listEnrollments P st = Inr ds)"
  unfolding listEnrollments_ok [OF assms]
  by (simp add: normalizeEnrollmentList_array normalizeEnrollmentList_enrollments
      normalizeEnrollmentList_data)

theorem listEnrollments_precedence_witness:
  \<open>listEnrollments
      (answering \<lparr>status = 200, body_text = Some ''{"enrollments":[7],"data":[8]}''\<rparr>) ACTIVE
    = Inr [JNum 7]\<close>
proof -
  let ?r = \<open>\<lparr>status = 200, body_text = Some ''{"enrollments":[7],"data":[8]}''\<rparr>\<close>
  show ?thesis
    using listEnrollments_precedence
      [of "answering ?r" ACTIVE ?r
          "JObj [(''enrollments'', JArr [JNum 7]), (''data'', JArr [JNum 8])]"
          "[]" "[JNum 7]" "[JNum 8]"]
    by (simp add: fixture_defs parseJson_def ok_def)
qed

subsection \<open>The timeline\<close>

lemma normalizeTimeline_events:
  "get_prop payload ''events'' = JArr xs \<Longrightarrow>
     normalizeTimeline P payload = Inr \<lparr> events = xs \<rparr>"
  by (cases payload) (simp_all add: normalizeTimeline_def)

lemma normalizeTimeline_reject:
  "\<not> isArray (get_prop payload ''events'') \<Longrightarrow>
     normalizeTimeline P payload =
       Inl (ApiError ''Expected timeline response with events[]'' 200 payload)"
  by (cases payload; cases "get_prop payload ''events''")
     (simp_all add: normalizeTimeline_def)

lemma getTimeline_ok:
  assumes "fetch P (fetch_args P (''/api/enrollments/'' @ ident @ ''/timeline'') GET_init)
             = Responded response"
    and "ok response" and "parseJson P response = Inr payload"
  shows "getTimeline P ident = normalizeTimeline P payload"
  using request_ok [OF assms] by (simp add: getTimeline_def apiGet_def)

text \<open>
  Claim C4. When the response to \<^verbatim>\<open>getTimeline\<close> is 2xx, the call resolves exactly for
  a payload with an array under \<^verbatim>\<open>events\<close>, with that array as the events of the result
  (an empty array gives an empty sequence); every other payload, a bare array included,
  is rejected with the \<^verbatim>\<open>ApiError\<close> of status 200 and message
  \<^verbatim>\<open>Expected timeline response with events[]\<close> that carries the payload.
\<close>

theorem getTimeline_one_shape:
  assumes "fetch P (fetch_args P (''/api/enrollments/'' @ ident @ ''/timeline'') GET_init)
             = Responded response"
    and "ok response" and "parseJson P response = Inr payload"
  shows "(get_prop payload ''events'' = JArr xs \<longrightarrow>
            getTimeline P ident = Inr \<lparr> events = xs \<rparr>)
       \<and> (\<not> isArray (get_prop payload ''events'') \<longrightarrow>
            getTimeline P ident =
              Inl (ApiError ''Expected timeline response with events[]'' 200 payload))
       \<and> (isArray payload \<longrightarrow>
            getTimeline P ident =
              Inl (ApiError ''Expected timeline response with events[]'' 200 payload))"
proof -
  have "isArray payload \<Longrightarrow> \<not> isArray (get_prop payload ''events'')"
    by (cases payload) simp_all
  then show ?thesis
    unfolding getTimeline_ok [OF assms]
    by (auto simp: normalizeTimeline_events normalizeTimeline_reject)
qed

theorem getTimeline_one_shape_witness:
  \<open>getTimeline (answering \<lparr>status = 200, body_text = Some ''{"events":[]}''\<rparr>) ''e1''
      = Inr \<lparr> events = [] \<rparr>
   \<and> getTimeline (answering \<lparr>status = 200, body_text = Some ''[]''\<rparr>) ''e1''
      = Inl (ApiError ''Expected timeline response with events[]'' 200 (JArr []))\<close>
proof -
  let ?e = \<open>\<lparr>status = 200, body_text = Some ''{"events":[]}''\<rparr>\<close>
  let ?a = \<open>\<lparr>status = 200, body_text = Some ''[]''\<rparr>\<close>
  have "getTimeline (answering ?e) ''e1'' = Inr \<lparr> events = [] \<rparr>"
    using getTimeline_one_shape
      [of "answering ?e" "''e1''" ?e "JObj [(''events'', JArr [])]" "[]"]
    by (simp add: fixture_defs parseJson_def ok_def)
  moreover have "getTimeline (answering ?a) ''e1''
      = Inl (ApiError ''Expected timeline response with events[]'' 200 (JArr []))"
    using getTimeline_one_shape [of "answering ?a" "''e1''" ?a "JArr []" "[]"]
    by (simp add: fixture_defs parseJson_def ok_def)
  ultimately show ?thesis by simp
qed

subsection \<open>Reading the body\<close>

text \<open>
  Claim C5. For every body text that was read, \<^verbatim>\<open>parseJson\<close> returns a value and never
  throws: \<^verbatim>\<open>null\<close> for the empty text, the value \<^verbatim>\<open>JSON.parse\<close> gives for a text it
  accepts, and the text itself as a string where \<^verbatim>\<open>JSON.parse\<close> throws.
\<close>

theorem parseJson_total:
  assumes "body_text response = Some text"
  shows "resolves (parseJson P response)
       \<and> (text = [] \<longrightarrow> parseJson P response = Inr JNull)
       \<and> (text \<noteq> [] \<and> JSON_parse P text = Some v \<longrightarrow> parseJson P response = Inr v)
       \<and> (text \<noteq> [] \<and> JSON_parse P text = None \<longrightarrow> parseJson P response = Inr (JStr text))"
  using assms by (simp add: parseJson_def split: option.splits)

theorem parseJson_total_witness:
  \<open>parseJson offline \<lparr>status = 200, body_text = Some ''''\<rparr> = Inr JNull
   \<and> parseJson offline \<lparr>status = 200, body_text = Some ''{"events":[]}''\<rparr>
       = Inr (JObj [(''events'', JArr [])])
   \<and> parseJson offline \<lparr>status = 502, body_text = Some ''<html>Bad Gateway</html>''\<rparr>
       = Inr (JStr ''<html>Bad Gateway</html>'')\<close>
proof -
  let ?e = \<open>\<lparr>status = 200, body_text = Some ''''\<rparr>\<close>
  let ?j = \<open>\<lparr>status = 200, body_text = Some ''{"events":[]}''\<rparr>\<close>
  let ?h = \<open>\<lparr>status = 502, body_text = Some ''<html>Bad Gateway</html>''\<rparr>\<close>
  have "parseJson offline ?e = Inr JNull"
    using parseJson_total [of ?e "''''" offline JNull] by simp
  moreover have "parseJson offline ?j = Inr (JObj [(''events'', JArr [])])"
    using parseJson_total [of ?j \<open>''{"events":[]}''\<close> offline "JObj [(''events'', JArr [])]"]
    by (simp add: fixture_defs)
  moreover have "parseJson offline ?h = Inr (JStr ''<html>Bad Gateway</html>'')"
    using parseJson_total [of ?h "''<html>Bad Gateway</html>''" offline JNull]
    by (simp add: fixture_defs)
  ultimately show ?thesis by simp
qed

subsection \<open>Operations that return the body as it is\<close>

text \<open>
  Claim C6. For \<^verbatim>\<open>getEnrollment\<close>, \<^verbatim>\<open>createEnrollment\<close>, \<^verbatim>\<open>suppressEnrollment\<close> and
  \<^verbatim>\<open>escalateEnrollment\<close>, a 2xx response resolves with the parsed body exactly as it
  was received: nothing is normalized, validated or recomputed, so the \<^verbatim>\<open>status\<close> of the
  enrollment that suppress and escalate return is the one the server sent.
\<close>

theorem passthrough_operations:
  assumes "ok response" and "parseJson P response = Inr payload"
  shows "(fetch P (fetch_args P (''/api/enrollments/'' @ ident) GET_init) = Responded response
            \<longrightarrow> getEnrollment P ident = Inr payload)
       \<and> (fetch P (fetch_args P ''/api/enrollments'' (POST_init P body)) = Responded response
            \<longrightarrow> createEnrollment P body = Inr payload)
       \<and> (fetch P (fetch_args P (''/api/enrollments/'' @ ident @ ''/suppress'') (POST_init P body))
              = Responded response
            \<longrightarrow> suppressEnrollment P ident body = Inr payload)
       \<and> (fetch P (fetch_args P (''/api/enrollments/'' @ ident @ ''/escalate'') (POST_init P body))
              = Responded response
            \<longrightarrow> escalateEnrollment P ident body = Inr payload)"
  using assms
  by (simp add: getEnrollment_def createEnrollment_def suppressEnrollment_def
      escalateEnrollment_def apiGet_def apiPost_def request_ok)

theorem passthrough_operations_witness:
  \<open>suppressEnrollment
      (answering \<lparr>status = 200, body_text = Some ''{"id":"e1","status":"SUPPRESSED"}''\<rparr>)
      ''e1'' (JObj [(''reason'', JStr ''deceased'')])
    = Inr (JObj [(''id'', JStr ''e1''), (''status'', JStr ''SUPPRESSED'')])
   \<and> escalateEnrollment
      (answering \<lparr>status = 200, body_text = Some ''{"id":"e1","status":"SUPPRESSED"}''\<rparr>)
      ''e1'' (JObj [(''reason'', JStr ''manual_escalation'')])
    = Inr (JObj [(''id'', JStr ''e1''), (''status'', JStr ''SUPPRESSED'')])
   \<and> getEnrollment (answering \<lparr>status = 200, body_text = Some ''[7,8]''\<rparr>) ''e1''
    = Inr (JArr [JNum 7, JNum 8])
   \<and> createEnrollment (answering \<lparr>status = 201, body_text = Some ''created''\<rparr>)
       (JObj [(''borrowerId'', JStr ''b1''), (''dealerId'', JStr ''d1''), (''phone'', JStr ''555'')])
    = Inr (JStr ''created'')\<close>
proof -
  let ?s = \<open>\<lparr>status = 200, body_text = Some ''{"id":"e1","status":"SUPPRESSED"}''\<rparr>\<close>
  let ?a = \<open>\<lparr>status = 200, body_text = Some ''[7,8]''\<rparr>\<close>
  let ?c = \<open>\<lparr>status = 201, body_text = Some ''created''\<rparr>\<close>
  let ?e = "JObj [(''id'', JStr ''e1''), (''status'', JStr ''SUPPRESSED'')] :: nat jsval"
  have "suppressEnrollment (answering ?s) ''e1'' (JObj [(''reason'', JStr ''deceased'')]) = Inr ?e"
    using passthrough_operations
      [of ?s "answering ?s" ?e "''e1''" "JObj [(''reason'', JStr ''deceased'')]"]
    by (simp add: fixture_defs parseJson_def ok_def)
  moreover have "escalateEnrollment (answering ?s) ''e1''
      (JObj [(''reason'', JStr ''manual_escalation'')]) = Inr ?e"
    using passthrough_operations
      [of ?s "answering ?s" ?e "''e1''" "JObj [(''reason'', JStr ''manual_escalation'')]"]
    by (simp add: fixture_defs parseJson_def ok_def)
  moreover have "getEnrollment (answering ?a) ''e1'' = Inr (JArr [JNum 7, JNum 8])"
    using passthrough_operations
      [of ?a "answering ?a" "JArr [JNum 7, JNum 8]" "''e1''" JNull]
    by (simp add: fixture_defs parseJson_def ok_def)
  moreover have "createEnrollment (answering ?c)
       (JObj [(''borrowerId'', JStr ''b1''), (''dealerId'', JStr ''d1''), (''phone'', JStr ''555'')])
    = Inr (JStr ''created'')"
    using passthrough_operations
      [of ?c "answering ?c" "JStr ''created''" "''e1''"
          "JObj [(''borrowerId'', JStr ''b1''), (''dealerId'', JStr ''d1''),
                 (''phone'', JStr ''555'')]"]
    by (simp add: fixture_defs parseJson_def ok_def)
  ultimately show ?thesis by simp
qed

section \<open>The request that is sent\<close>

lemma strip_trailing_slash_append: "strip_trailing_slash (b @ ''/'') = b"
  by (simp add: strip_trailing_slash_def)

lemma strip_trailing_slash_other:
  assumes "\<forall>b. v \<noteq> b @ ''/''"
  shows "strip_trailing_slash v = v"
proof (cases "v \<noteq> [] \<and> last v = CHR ''/''")
  case True
  then have "v = butlast v @ ''/''"
    by (metis append_butlast_last_id)
  with assms show ?thesis by blast
next
  case False
  then show ?thesis by (auto simp: strip_trailing_slash_def)
qed

text \<open>
  Claim C8. Every request goes to the URL made of the base prefix and the path. The
  prefix is the configuration value without its trailing slash (a value that does not
  end in a slash is taken as it is); when the value is absent the prefix is empty, so
  the URL is the path itself, relative to the serving origin.
\<close>

theorem base_url_prefix:
  "request P path init = settle P (fetch P (fetch_args P path init))
   \<and> url (fetch_args P path init) = API_BASE_URL P @ path
   \<and> (VITE_API_BASE_URL P = None \<longrightarrow>
        API_BASE_URL P = [] \<and> url (fetch_args P path init) = path)
   \<and> (VITE_API_BASE_URL P = Some (b @ ''/'') \<longrightarrow> API_BASE_URL P = b)
   \<and> (VITE_API_BASE_URL P = Some v \<and> (\<forall>b. v \<noteq> b @ ''/'') \<longrightarrow> API_BASE_URL P = v)"
  by (simp add: request_def fetch_args_def Let_def API_BASE_URL_def
      strip_trailing_slash_append strip_trailing_slash_other)

theorem base_url_prefix_witness:
  "url (fetch_args (answering \<lparr>status = 200, body_text = Some ''[]''\<rparr>)
          ''/api/enrollments/e1'' GET_init)
     = ''https://collect.example/api/enrollments/e1''
   \<and> url (fetch_args offline ''/api/enrollments/e1'' GET_init) = ''/api/enrollments/e1''
   \<and> API_BASE_URL (offline \<lparr> VITE_API_BASE_URL := Some ''http://localhost:8080'' \<rparr>)
     = ''http://localhost:8080''"
proof -
  let ?P = "answering \<lparr>status = 200, body_text = Some ''[]''\<rparr>"
  let ?L = "offline \<lparr> VITE_API_BASE_URL := Some ''http://localhost:8080'' \<rparr>"
  have "url (fetch_args ?P ''/api/enrollments/e1'' GET_init)
      = ''https://collect.example/api/enrollments/e1''"
    using base_url_prefix
      [of ?P "''/api/enrollments/e1''" GET_init "''https://collect.example''" "[]"]
    by (simp add: fixture_defs)
  moreover have "url (fetch_args offline ''/api/enrollments/e1'' GET_init)
      = ''/api/enrollments/e1''"
    using base_url_prefix [of offline "''/api/enrollments/e1''" GET_init "[]" "[]"]
    by (simp add: fixture_defs)
  moreover have "API_BASE_URL ?L = ''http://localhost:8080''"
  proof -
    have "\<forall>b. ''http://localhost:8080'' \<noteq> b @ ''/''"
    proof
      fix b :: string
      show "''http://localhost:8080'' \<noteq> b @ ''/''"
      proof
        assume "''http://localhost:8080'' = b @ ''/''"
        then have "last ''http://localhost:8080'' = last (b @ ''/'')"
          by (rule arg_cong)
        then show False by simp
      qed
    qed
    then show ?thesis
      using base_url_prefix [of ?L "[]" None "[]" "''http://localhost:8080''"]
      by (simp add: fixture_defs)
  qed
  ultimately show ?thesis by simp
qed

text \<open>
  Claim C10. \<^verbatim>\<open>apiPost\<close> calls \<^verbatim>\<open>fetch\<close> with no body when its body argument is \<^verbatim>\<open>null\<close>
  or \<^verbatim>\<open>undefined\<close>, and with the JSON serialization of the argument otherwise; the
  requests of \<^verbatim>\<open>apiPost\<close> and \<^verbatim>\<open>apiGet\<close> alike carry the header
  \<^verbatim>\<open>Content-Type: application/json\<close>. The three POST operations hand their payload to
  \<^verbatim>\<open>apiPost\<close>.
\<close>

theorem post_body_and_content_type:
  "apiPost P path body =
     settle P (fetch P
       \<lparr> url = API_BASE_URL P @ path,
         req_method = Some ''POST'',
         req_headers = [(''Content-Type'', ''application/json'')],
         req_body = (if body = JNull \<or> body = JUndefined then None
                     else Some (JSON_stringify P body)) \<rparr>)
   \<and> apiGet P path =
     settle P (fetch P
       \<lparr> url = API_BASE_URL P @ path,
         req_method = Some ''GET'',
         req_headers = [(''Content-Type'', ''application/json'')],
         req_body = None \<rparr>)
   \<and> createEnrollment P body = apiPost P ''/api/enrollments'' body
   \<and> suppressEnrollment P ident body = apiPost P (''/api/enrollments/'' @ ident @ ''/suppress'') body
   \<and> escalateEnrollment P ident body = apiPost P (''/api/enrollments/'' @ ident @ ''/escalate'') body"
  by (cases body)
     (simp_all add: apiPost_def apiGet_def request_def fetch_args_def spread_def
       createEnrollment_def suppressEnrollment_def escalateEnrollment_def)

theorem post_body_and_content_type_witness:
  "apiPost (probe :: nat platform) ''/api/enrollments/e1/suppress'' JNull
     = Inl (ApiError ''Request failed (400)'' 400 (JStr ''no body''))
   \<and> apiPost (probe :: nat platform) ''/api/enrollments/e1/suppress'' JUndefined
     = Inl (ApiError ''Request failed (400)'' 400 (JStr ''no body''))
   \<and> apiPost (probe :: nat platform) ''/api/enrollments/e1/suppress''
       (JObj [(''reason'', JStr ''x'')])
     = Inr (JStr ''<stringified>'')"
proof -
  note evals = probe_def settle_def parseJson_def ok_def error_message_def API_BASE_URL_def
    decimal.simps digit_char_def
  have "apiPost (probe :: nat platform) ''/api/enrollments/e1/suppress'' JNull
      = Inl (ApiError ''Request failed (400)'' 400 (JStr ''no body''))"
    using post_body_and_content_type
      [of probe "''/api/enrollments/e1/suppress''" JNull, THEN conjunct1]
    by (simp add: evals)
  moreover have "apiPost (probe :: nat platform) ''/api/enrollments/e1/suppress'' JUndefined
      = Inl (ApiError ''Request failed (400)'' 400 (JStr ''no body''))"
    using post_body_and_content_type
      [of probe "''/api/enrollments/e1/suppress''" JUndefined, THEN conjunct1]
    by (simp add: evals)
  moreover have "apiPost (probe :: nat platform) ''/api/enrollments/e1/suppress''
       (JObj [(''reason'', JStr ''x'')]) = Inr (JStr ''<stringified>'')"
    using post_body_and_content_type
      [of probe "''/api/enrollments/e1/suppress''" "JObj [(''reason'', JStr ''x'')]",
        THEN conjunct1]
    by (simp add: evals)
  ultimately show ?thesis by simp
qed

section \<open>Responses that are not ok\<close>



lemma request_not_ok:
  assumes "fetch P (fetch_args P path init) = Responded response"
    and "\<not> ok response" and "parseJson P response = Inr payload"
    and "error_message P response payload = Inr message"
  shows "request P path init = Inl (ApiError message (status response) payload)"
  using assms by (simp add: request_def settle_def)

lemma request_not_ok_uncoercible:
  assumes "fetch P (fetch_args P path init) = Responded response"
    and "\<not> ok response" and "parseJson P response = Inr payload"
    and "error_message P response payload = Inl e"
  shows "request P path init = Inl e"
  using assms by (simp add: request_def settle_def)

lemma not_found_example:
  \<open>getEnrollment (answering \<lparr>status = 404, body_text = Some ''{"message":"not found"}''\<rparr>) ''e1''
     = Inl (ApiError ''not found'' 404 (JObj [(''message'', JStr ''not found'')]))\<close>
  by (simp add: getEnrollment_def apiGet_def request_def settle_def parseJson_def ok_def
      error_message_def fixture_defs)

lemma empty_500_example:
  \<open>getEnrollment (answering \<lparr>status = 500, body_text = Some ''''\<rparr>) ''e1''
     = Inl (ApiError ''Request failed (500)'' 500 JNull)\<close>
  by (simp add: getEnrollment_def apiGet_def request_def settle_def parseJson_def ok_def
      error_message_def fixture_defs decimal.simps digit_char_def)

text \<open>
  Claim C2. A response that is not ok makes the call reject with an \<^verbatim>\<open>ApiError\<close> that
  has the status of the response and the parsed body as payload; its message is
  \<^verbatim>\<open>String\<close> of the \<^verbatim>\<open>message\<close> field where the body is an object with that key, and
  \<^verbatim>\<open>Request failed (<status>)\<close> otherwise (the lemmas above, which hold where
  \<^verbatim>\<open>String\<close> returns). Where the \<^verbatim>\<open>message\<close> field is an object with an own property
  \<^verbatim>\<open>toString\<close>, \<^verbatim>\<open>String\<close> throws before the \<^verbatim>\<open>ApiError\<close> is built, and the call
  rejects with that \<^verbatim>\<open>TypeError\<close>: the evaluation below, for status 500 and the body
  \<^verbatim>\<open>{"message":{"toString":1}}\<close>.
\<close>

theorem message_coercion_throws:
  \<open>getEnrollment
      (answering \<lparr>status = 500, body_text = Some ''{"message":{"toString":1}}''\<rparr>) ''e1''
     = Inl TypeError\<close>
  by (simp add: getEnrollment_def apiGet_def request_def settle_def parseJson_def ok_def
      error_message_def fixture_defs)

section \<open>Propagation\<close>

lemma request_io_eq:
  "request_io P T path init h =
     (settle P (T h (fetch_args P path init)), h @ [fetch_args P path init])"
  by (simp add: request_io_def fetch_io_def)

lemma fetch_args_fetch_update [simp]:
  "fetch_args (P\<lparr>fetch := f\<rparr>) path init = fetch_args P path init"
  by (simp add: fetch_args_def API_BASE_URL_def)

lemma parseJson_fetch_update [simp]:
  "parseJson (P\<lparr>fetch := f\<rparr>) r = parseJson P r"
  by (simp add: parseJson_def split: option.splits)

lemma error_message_fetch_update [simp]:
  "error_message (P\<lparr>fetch := f\<rparr>) r payload = error_message P r payload"
  by (simp add: error_message_def)

lemma settle_fetch_update [simp]:
  "settle (P\<lparr>fetch := f\<rparr>) outcome = settle P outcome"
  by (simp add: settle_def split: fetch_outcome.splits sum.splits)

lemma request_io_request:
  "request_io P T path init h =
     (request (P\<lparr>fetch := T h\<rparr>) path init, h @ [fetch_args P path init])"
  by (simp add: request_io_eq request_def)

lemma primitive_ToString:
  "is_primitive v \<Longrightarrow> \<exists>s. ToString ns v = Inr s"
  by (cases v) simp_all







lemma apiGet_io_eq:
  "apiGet_io P T path h =
     (settle P (T h (fetch_args P path GET_init)), h @ [fetch_args P path GET_init])"
  by (simp add: apiGet_io_def request_io_eq)

lemma apiPost_io_eq:
  "apiPost_io P T path body h =
     (settle P (T h (fetch_args P path (POST_init P body))),
      h @ [fetch_args P path (POST_init P body)])"
  by (simp add: apiPost_io_def request_io_eq)












text \<open>
  The results above are those of the operations as defined first, with the transport's
  answer to the next call in the place of \<^verbatim>\<open>fetch\<close>.
\<close>

lemma normalizeEnrollmentList_fetch_update [simp]:
  "normalizeEnrollmentList (P\<lparr>fetch := f\<rparr>) payload = normalizeEnrollmentList P payload"
  by (cases payload) (simp_all add: normalizeEnrollmentList_def)

lemma normalizeTimeline_fetch_update [simp]:
  "normalizeTimeline (P\<lparr>fetch := f\<rparr>) payload = normalizeTimeline P payload"
  by (simp add: normalizeTimeline_def)

lemma io_agrees:
  "fst (listEnrollments_io P T st h) = listEnrollments (P\<lparr>fetch := T h\<rparr>) st"
  "fst (getTimeline_io P T ident h) = getTimeline (P\<lparr>fetch := T h\<rparr>) ident"
  "fst (getEnrollment_io P T ident h) = getEnrollment (P\<lparr>fetch := T h\<rparr>) ident"
  "fst (createEnrollment_io P T body h) = createEnrollment (P\<lparr>fetch := T h\<rparr>) body"
  "fst (suppressEnrollment_io P T ident body h)
     = suppressEnrollment (P\<lparr>fetch := T h\<rparr>) ident body"
  "fst (escalateEnrollment_io P T ident body h)
     = escalateEnrollment (P\<lparr>fetch := T h\<rparr>) ident body"
  by (simp_all add: listEnrollments_io_def getTimeline_io_def getEnrollment_io_def
      createEnrollment_io_def suppressEnrollment_io_def escalateEnrollment_io_def
      apiGet_io_eq apiPost_io_eq listEnrollments_def getTimeline_def getEnrollment_def
      createEnrollment_def suppressEnrollment_def escalateEnrollment_def
      apiGet_def apiPost_def request_def split: sum.splits)

end
